theory Spec2Isabelle
  imports Main "HOL-Library.Word"
begin

section \<open>JavaScript strings\<close>

text \<open>
  A JavaScript string is a sequence of 16-bit code units; \<open>length\<close>, \<open>slice\<close>,
  \<open>lastIndexOf\<close> and \<open>split\<close> all count code units.
\<close>

type_synonym jschar = "16 word"
type_synonym jsstring = "jschar list"

definition js :: "string \<Rightarrow> jsstring" where
  "js s = map of_char s"

text \<open>
  The code units that \<open>trim\<close> and \<open>trimStart\<close> remove: ECMAScript WhiteSpace
  (TAB, VT, FF, SP, NBSP, ZWNBSP and the space separators) and LineTerminator
  (LF, CR, LS, PS).
\<close>

definition isWhiteSpace :: "jschar \<Rightarrow> bool" where
  "isWhiteSpace c \<longleftrightarrow>
     c = 0x09 \<or> c = 0x0A \<or> c = 0x0B \<or> c = 0x0C \<or> c = 0x0D \<or> c = 0x20 \<or>
     c = 0xA0 \<or> c = 0x1680 \<or> (0x2000 \<le> c \<and> c \<le> 0x200A) \<or>
     c = 0x2028 \<or> c = 0x2029 \<or> c = 0x202F \<or> c = 0x205F \<or> c = 0x3000 \<or>
     c = 0xFEFF"

definition trimStart :: "jsstring \<Rightarrow> jsstring" where
  "trimStart s = dropWhile isWhiteSpace s"

definition trimEnd :: "jsstring \<Rightarrow> jsstring" where
  "trimEnd s = rev (dropWhile isWhiteSpace (rev s))"

definition trim :: "jsstring \<Rightarrow> jsstring" where
  "trim s = trimEnd (trimStart s)"

text \<open>
  \<open>s.lastIndexOf(c, fromIndex)\<close> for a one-unit search string: the scan starts at
  \<open>min(fromIndex, length - 1)\<close> and runs down to index 0; the result is \<open>-1\<close> when
  the unit does not occur.
\<close>

primrec lastIndexOf :: "jsstring \<Rightarrow> jschar \<Rightarrow> nat \<Rightarrow> int" where
  "lastIndexOf s c 0 = (if 0 < length s \<and> s ! 0 = c then 0 else - 1)"
| "lastIndexOf s c (Suc k) =
     (if Suc k < length s \<and> s ! Suc k = c then int (Suc k) else lastIndexOf s c k)"

text \<open>
  \<open>s.split(sep)\<close> for a one-unit separator; the empty string splits into one
  empty piece.
\<close>

fun split :: "jschar \<Rightarrow> jsstring \<Rightarrow> jsstring list" where
  "split sep [] = [[]]"
| "split sep (c # cs) =
     (if c = sep then [] # split sep cs
      else (case split sep cs of [] \<Rightarrow> [[c]] | p # ps \<Rightarrow> (c # p) # ps))"

section \<open>Chunking of long text (nimGateway.ts, splitMessageIntoChunks)\<close>

definition MAX_MESSAGE_LENGTH :: nat where
  "MAX_MESSAGE_LENGTH = 5000"

text \<open>
  The split position of one round of the loop. The test
  \<open>splitIndex < maxLength * 0.5\<close> on integers is \<open>2 * splitIndex < maxLength\<close>.
\<close>

definition splitIndex :: "nat \<Rightarrow> jsstring \<Rightarrow> nat" where
  "splitIndex maxLength remaining =
     (let i1 = lastIndexOf remaining 0x0A maxLength;
          i2 = (if i1 = - 1 \<or> 2 * i1 < int maxLength
                then lastIndexOf remaining 0x20 maxLength else i1);
          i3 = (if i2 = - 1 \<or> 2 * i2 < int maxLength then int maxLength else i2)
      in nat i3)"

text \<open>
  The \<open>while (remaining.length > 0)\<close> loop. Nothing in the source bounds the
  number of rounds (with \<open>maxLength = 0\<close> a round can leave \<open>remaining\<close> as it
  was), so not returning is the value \<open>None\<close>.
\<close>

partial_function (option) chunkLoop ::
  "nat \<Rightarrow> jsstring \<Rightarrow> jsstring list \<Rightarrow> jsstring list option" where
  "chunkLoop maxLength remaining chunks =
     (if 0 < length remaining then
        (if length remaining \<le> maxLength then Some (chunks @ [remaining])
         else chunkLoop maxLength
                (trimStart (drop (splitIndex maxLength remaining) remaining))
                (chunks @ [take (splitIndex maxLength remaining) remaining]))
      else Some chunks)"

declare chunkLoop.simps [code]

definition splitMessageIntoChunks :: "jsstring \<Rightarrow> nat \<Rightarrow> jsstring list option" where
  "splitMessageIntoChunks text maxLength =
     (if length text \<le> maxLength then Some [text]
      else chunkLoop maxLength text [])"

text \<open>
  What it means for a list of chunks to reproduce a text up to the trim of each
  remainder: the text starts with the first chunk, and what is left of it, with
  its leading white space removed, is reproduced by the other chunks.
\<close>

fun reproduces :: "jsstring list \<Rightarrow> jsstring \<Rightarrow> bool" where
  "reproduces [] t = (t = [])"
| "reproduces (c # cs) t =
     (take (length c) t = c \<and> reproduces cs (trimStart (drop (length c) t)))"

section \<open>Conversation identifiers (nimGateway.ts)\<close>

datatype sessionType = P2P | Team | SuperTeam

record ParsedConversationId =
  sessionType :: sessionType
  targetId :: jsstring

definition isDigit :: "jschar \<Rightarrow> bool" where
  "isDigit c \<longleftrightarrow> 0x30 \<le> c \<and> c \<le> 0x39"

text \<open>
  \<open>parseInt(s, 10)\<close>: leading white space is skipped, one sign is read, then the
  longest run of decimal digits; \<open>None\<close> is \<open>NaN\<close> (no digit).
\<close>

definition parseInt :: "jsstring \<Rightarrow> int option" where
  "parseInt s =
     (let t = trimStart s;
          sgn = (case t of [] \<Rightarrow> 1 | c # r \<Rightarrow> if c = 0x2D then - 1 else (1::int));
          u = (case t of [] \<Rightarrow> [] | c # r \<Rightarrow> if c = 0x2D \<or> c = 0x2B then r else t);
          ds = takeWhile isDigit u
      in if ds = [] then None
         else Some (sgn * foldl (\<lambda>a d. 10 * a + (uint d - 48)) 0 ds))"

definition parseConversationId :: "jsstring \<Rightarrow> ParsedConversationId" where
  "parseConversationId cid =
     (let parts = split 0x7C cid
      in if 3 \<le> length parts then
           (let typeNum = parseInt (parts ! 1)
            in \<lparr>sessionType = (if typeNum = Some 1 then P2P
                               else if typeNum = Some 2 then Team else P2P),
                targetId = parts ! 2\<rparr>)
         else \<lparr>sessionType = P2P, targetId = []\<rparr>)"

text \<open>
  The SDK's conversation id utility, when the client provides one. A falsy
  result of the utility is the empty string (\<open>|| ''\<close>).
\<close>

record ConversationIdUtil =
  p2pConversationId :: "jsstring \<Rightarrow> jsstring"
  teamConversationId :: "jsstring \<Rightarrow> jsstring"
  superTeamConversationId :: "jsstring \<Rightarrow> jsstring"

definition buildConversationId ::
  "ConversationIdUtil option \<Rightarrow> jsstring \<Rightarrow> sessionType \<Rightarrow> jsstring" where
  "buildConversationId util accountId st =
     (case util of
        Some u \<Rightarrow>
          (case st of
             P2P \<Rightarrow> p2pConversationId u accountId
           | Team \<Rightarrow> teamConversationId u accountId
           | SuperTeam \<Rightarrow> superTeamConversationId u accountId)
      | None \<Rightarrow>
          js ''0|'' @ (case st of P2P \<Rightarrow> js ''1'' | Team \<Rightarrow> js ''2'' | SuperTeam \<Rightarrow> js ''3'')
            @ js ''|'' @ accountId)"

section \<open>Configuration, status, messages\<close>

text \<open>
  Modelled from the spec: the declarations of \<open>NimConfig\<close>, \<open>NimGatewayStatus\<close>,
  \<open>IMMessage\<close>, \<open>IMMediaAttachment\<close> and \<open>DEFAULT_NIM_STATUS\<close> are in
  \<open>types.ts\<close>, which is not among the sources; the fields are the ones the
  gateway reads and writes. A credential that is missing is the empty string
  (the gateway tests them for falsiness only).
\<close>

record NimConfig =
  enabled :: bool
  appKey :: jsstring
  account :: jsstring
  token :: jsstring
  accountWhitelist :: "jsstring option"
  debug :: bool

text \<open>\<open>Partial<NimConfig>\<close>: \<open>None\<close> is a key that the object does not have.\<close>

record NimConfigPartial =
  new_enabled :: "bool option"
  new_appKey :: "jsstring option"
  new_account :: "jsstring option"
  new_token :: "jsstring option"
  new_accountWhitelist :: "jsstring option option"
  new_debug :: "bool option"

text \<open>The spread \<open>{ ...config, ...partial }\<close>.\<close>

definition mergeConfig :: "NimConfig \<Rightarrow> NimConfigPartial \<Rightarrow> NimConfig" where
  "mergeConfig c p =
     \<lparr>enabled = (case new_enabled p of Some v \<Rightarrow> v | None \<Rightarrow> enabled c),
      appKey = (case new_appKey p of Some v \<Rightarrow> v | None \<Rightarrow> appKey c),
      account = (case new_account p of Some v \<Rightarrow> v | None \<Rightarrow> account c),
      token = (case new_token p of Some v \<Rightarrow> v | None \<Rightarrow> token c),
      accountWhitelist =
        (case new_accountWhitelist p of Some v \<Rightarrow> v | None \<Rightarrow> accountWhitelist c),
      debug = (case new_debug p of Some v \<Rightarrow> v | None \<Rightarrow> debug c)\<rparr>"

record NimGatewayStatus =
  connected :: bool
  startedAt :: "int option"
  lastError :: "jsstring option"
  botAccount :: "jsstring option"
  lastInboundAt :: "int option"
  lastOutboundAt :: "int option"

definition DEFAULT_NIM_STATUS :: NimGatewayStatus where
  "DEFAULT_NIM_STATUS =
     \<lparr>connected = False, startedAt = None, lastError = None, botAccount = None,
      lastInboundAt = None, lastOutboundAt = None\<rparr>"

datatype IMMediaType = ImImage | ImAudio | ImVideo | ImDocument

record IMMediaAttachment =
  attachmentType :: IMMediaType
  localPath :: jsstring
  mimeType :: jsstring
  fileName :: jsstring
  fileSize :: nat

record IMMessage =
  platform :: jsstring
  messageId :: jsstring
  im_conversationId :: jsstring
  im_senderId :: jsstring
  content :: jsstring
  chatType :: jsstring
  timestamp :: int
  attachments :: "IMMediaAttachment list option"

section \<open>Gateway state and observable effects\<close>

datatype error = Error jsstring

datatype listener =
  OnReceiveMessages | OnLoginStatus | OnKickedOffline | OnLoginFailed | OnDisconnected

datatype event =
  EvConnected | EvDisconnected | EvStatus | EvError jsstring | EvMessage IMMessage

datatype payload = TextPayload jsstring | MediaPayload jsstring

text \<open>
  What the gateway does to the outside, in the order it does it: calls into the
  native SDK, events it emits, invocations of the application callback, and
  the fixed waits.
\<close>

datatype action =
    SdkCreate
  | SdkInit jsstring
  | SdkOn listener
  | SdkOff listener
  | SdkOffThrows listener
  | SdkLogin jsstring jsstring
  | SdkUninit
  | SdkSendMessage jsstring payload
  | Emit event
  | InvokeCallback IMMessage
  | Delay nat

datatype native = V2NIMClient | V2NIMLoginService | V2NIMMessageService | V2NIMMessageCreator

text \<open>
  The fields of class \<open>NimGateway\<close>. The application callback is kept as what
  the gateway can see of it: whether it raises, and with which message. The
  \<open>trace\<close> is not a field of the class: it collects the actions. The \<open>log\<close>
  function and the lifecycle promise chain are left out: every operation below
  is one body run from start to end, which is what the chain guarantees for
  \<open>start\<close> and \<open>stop\<close>.
\<close>

record NimGateway =
  v2Client :: "native option"
  loginService :: "native option"
  messageService :: "native option"
  messageCreator :: "native option"
  conversationIdUtil :: "ConversationIdUtil option"
  config :: "NimConfig option"
  status :: NimGatewayStatus
  onMessageCallback :: "(IMMessage \<Rightarrow> jsstring option) option"
  lastSenderId :: "jsstring option"
  reconnectTimer :: "nat option"
  reconnectAttempts :: nat
  cleanupInterval :: "nat option"
  boundOnReceiveMessages :: "listener option"
  boundOnLoginStatus :: "listener option"
  boundOnKickedOffline :: "listener option"
  boundOnLoginFailed :: "listener option"
  boundOnDisconnected :: "listener option"
  stopRequested :: bool
  trace :: "action list"

definition newGateway :: NimGateway where
  "newGateway =
     \<lparr>v2Client = None, loginService = None, messageService = None,
      messageCreator = None, conversationIdUtil = None, config = None,
      status = DEFAULT_NIM_STATUS, onMessageCallback = None, lastSenderId = None,
      reconnectTimer = None, reconnectAttempts = 0, cleanupInterval = None,
      boundOnReceiveMessages = None, boundOnLoginStatus = None,
      boundOnKickedOffline = None, boundOnLoginFailed = None,
      boundOnDisconnected = None, stopRequested = False, trace = []\<rparr>"

definition updateConfig :: "NimConfigPartial \<Rightarrow> NimGateway \<Rightarrow> NimGateway" where
  "updateConfig partial s =
     (case config s of
        Some c \<Rightarrow> s\<lparr>config := Some (mergeConfig c partial)\<rparr>
      | None \<Rightarrow> s)"

definition cleanup :: "NimGateway \<Rightarrow> NimGateway" where
  "cleanup s =
     s\<lparr>v2Client := None, loginService := None, messageService := None,
       messageCreator := None, conversationIdUtil := None, cleanupInterval := None\<rparr>"

section \<open>Lifecycle: start and stop (nimGateway.ts)\<close>

text \<open>
  What the native SDK does when \<open>startInternal\<close> and \<open>stopInternal\<close> call it:
  loading the module and constructing the client may raise (\<open>loadError\<close>),
  creating the data directory may raise (\<open>dataPathError\<close>), \<open>init\<close> may return
  an error (\<open>initError\<close>, its description), each service may be missing, and
  the \<open>off\<close> call for a listener may raise (\<open>offRaises\<close>).
\<close>

record Sdk =
  loadError :: "jsstring option"
  dataPathError :: "jsstring option"
  initError :: "jsstring option"
  sdkLoginService :: "native option"
  sdkMessageService :: "native option"
  sdkMessageCreator :: "native option"
  sdkConversationIdUtil :: "ConversationIdUtil option"
  offRaises :: "listener \<Rightarrow> bool"

definition AlreadyRunning :: error where
  "AlreadyRunning = Error (js ''NIM gateway already running'')"

definition MissingCredentials :: error where
  "MissingCredentials = Error (js ''NIM appKey, account and token are required'')"

definition ServicesNotAvailable :: error where
  "ServicesNotAvailable = Error (js ''NIM SDK V2 services not available'')"

definition SdkInitFailed :: "jsstring \<Rightarrow> error" where
  "SdkInitFailed desc = Error (js ''NIM SDK V2 initialization failed: '' @ desc)"

text \<open>
  The \<open>try\<close> block of \<open>startInternal\<close>: the result is the error raised, if any,
  with the state as it is at that point.
\<close>

definition startBody :: "Sdk \<Rightarrow> NimConfig \<Rightarrow> NimGateway \<Rightarrow> (error + unit) \<times> NimGateway" where
  "startBody sdk cfg s =
     (case loadError sdk of
        Some m \<Rightarrow> (Inl (Error m), s)
      | None \<Rightarrow>
     (let s1 = s\<lparr>v2Client := Some V2NIMClient, trace := trace s @ [SdkCreate]\<rparr>
      in case dataPathError sdk of
        Some m \<Rightarrow> (Inl (Error m), s1)
      | None \<Rightarrow>
     (let s2 = s1\<lparr>trace := trace s1 @ [SdkInit (appKey cfg)]\<rparr>
      in case initError sdk of
        Some d \<Rightarrow> (Inl (SdkInitFailed d), s2)
      | None \<Rightarrow>
     (let s3 = s2\<lparr>loginService := sdkLoginService sdk,
                   messageService := sdkMessageService sdk,
                   messageCreator := sdkMessageCreator sdk,
                   conversationIdUtil := sdkConversationIdUtil sdk\<rparr>
      in if loginService s3 = None \<or> messageService s3 = None
         then (Inl ServicesNotAvailable, s3)
         else
           (Inr (),
            s3\<lparr>boundOnReceiveMessages := Some OnReceiveMessages,
               boundOnLoginStatus := Some OnLoginStatus,
               boundOnKickedOffline := Some OnKickedOffline,
               boundOnLoginFailed := Some OnLoginFailed,
               boundOnDisconnected := Some OnDisconnected,
               status := \<lparr>connected = False, startedAt = None, lastError = None,
                          botAccount = Some (account cfg), lastInboundAt = None,
                          lastOutboundAt = None\<rparr>,
               trace := trace s3 @
                 [SdkOn OnReceiveMessages, SdkOn OnLoginStatus, SdkOn OnKickedOffline,
                  SdkOn OnLoginFailed, SdkOn OnDisconnected,
                  SdkLogin (account cfg) (token cfg)]\<rparr>)))))"

text \<open>The \<open>catch\<close> block of \<open>startInternal\<close>, which raises the error again.\<close>

definition startCatch :: "error \<Rightarrow> NimGateway \<Rightarrow> (error + unit) \<times> NimGateway" where
  "startCatch e s =
     (case e of Error m \<Rightarrow>
        (let savedConfig = config s;
             s1 = (cleanup s)\<lparr>config := savedConfig\<rparr>
         in (Inl e,
             s1\<lparr>status :=
                  \<lparr>connected = False, startedAt = None, lastError = Some m,
                   botAccount =
                     (case savedConfig of
                        None \<Rightarrow> None
                      | Some c \<Rightarrow> if account c = [] then None else Some (account c)),
                   lastInboundAt = None, lastOutboundAt = None\<rparr>,
                trace := trace s1 @ [Emit (EvError m)]\<rparr>)))"

definition startInternal :: "Sdk \<Rightarrow> NimConfig \<Rightarrow> NimGateway \<Rightarrow> (error + unit) \<times> NimGateway" where
  "startInternal sdk cfg s =
     (if v2Client s \<noteq> None then (Inl AlreadyRunning, s)
      else
        (let s1 = s\<lparr>config := Some cfg\<rparr>
         in if \<not> enabled cfg then (Inr (), s1)
            else if appKey cfg = [] \<or> account cfg = [] \<or> token cfg = []
            then (Inl MissingCredentials, s1)
            else
              (case startBody sdk cfg s1 of
                 (Inr u, s2) \<Rightarrow> (Inr (), s2)
               | (Inl e, s2) \<Rightarrow> startCatch e s2)))"

definition start :: "Sdk \<Rightarrow> NimConfig \<Rightarrow> NimGateway \<Rightarrow> (error + unit) \<times> NimGateway" where
  "start sdk cfg s = startInternal sdk cfg (s\<lparr>stopRequested := False\<rparr>)"

text \<open>
  The listeners for which \<open>stopInternal\<close> calls \<open>off\<close>, each under the guards
  of the source, in the order of the source.
\<close>

definition boundListeners :: "NimGateway \<Rightarrow> listener list" where
  "boundListeners s =
     (if messageService s \<noteq> None \<and> boundOnReceiveMessages s \<noteq> None
      then [OnReceiveMessages] else []) @
     (if loginService s \<noteq> None then
        (if boundOnLoginStatus s \<noteq> None then [OnLoginStatus] else []) @
        (if boundOnKickedOffline s \<noteq> None then [OnKickedOffline] else []) @
        (if boundOnLoginFailed s \<noteq> None then [OnLoginFailed] else []) @
        (if boundOnDisconnected s \<noteq> None then [OnDisconnected] else [])
      else [])"

text \<open>
  The \<open>off\<close> calls stand in one \<open>try\<close> block: the first call that raises
  (\<open>SdkOffThrows\<close>) ends the block, the calls after it are not made, and the
  \<open>catch\<close> only logs.
\<close>

fun offCalls :: "(listener \<Rightarrow> bool) \<Rightarrow> listener list \<Rightarrow> action list" where
  "offCalls raises [] = []"
| "offCalls raises (l # ls) =
     (if raises l then [SdkOffThrows l] else SdkOff l # offCalls raises ls)"

definition removeListeners :: "Sdk \<Rightarrow> NimGateway \<Rightarrow> action list" where
  "removeListeners sdk s = offCalls (offRaises sdk) (boundListeners s)"

text \<open>
  \<open>uninit\<close> is called whatever the \<open>off\<close> calls did; an error it returns or an
  exception it raises is logged and changes nothing in what follows.
\<close>

definition stopInternal :: "Sdk \<Rightarrow> NimGateway \<Rightarrow> (error + unit) \<times> NimGateway" where
  "stopInternal sdk s =
     (let s1 = s\<lparr>reconnectTimer := None, reconnectAttempts := 0\<rparr>
      in if v2Client s1 = None then (Inr (), s1)
         else
           (let s2 = s1\<lparr>boundOnReceiveMessages := None, boundOnLoginStatus := None,
                        boundOnKickedOffline := None, boundOnLoginFailed := None,
                        boundOnDisconnected := None,
                        trace := trace s1 @ removeListeners sdk s1 @ [SdkUninit]\<rparr>;
                s3 = cleanup s2
            in (Inr (),
                s3\<lparr>status := \<lparr>connected = False, startedAt = None, lastError = None,
                              botAccount = botAccount (status s3),
                              lastInboundAt = None, lastOutboundAt = None\<rparr>,
                   trace := trace s3 @ [Emit EvDisconnected, Delay 1000]\<rparr>)))"

definition stop :: "Sdk \<Rightarrow> NimGateway \<Rightarrow> (error + unit) \<times> NimGateway" where
  "stop sdk s = stopInternal sdk (s\<lparr>stopRequested := True\<rparr>)"

text \<open>
  \<open>scheduleReconnect\<close> up to the point where the timer is set (\<open>Some\<close> the
  delay); what the timer does when it fires is a later \<open>stop\<close> and \<open>start\<close>.
\<close>

definition scheduleReconnect :: "nat \<Rightarrow> NimGateway \<Rightarrow> NimGateway" where
  "scheduleReconnect delayMs s =
     (let s1 = s\<lparr>reconnectTimer := None\<rparr>
      in if config s1 = None \<or> stopRequested s1 then s1
         else s1\<lparr>reconnectTimer := Some delayMs\<rparr>)"

definition reconnectIfNeeded :: "NimGateway \<Rightarrow> NimGateway" where
  "reconnectIfNeeded s =
     (if stopRequested s then s
      else if config s \<noteq> None \<and> (v2Client s = None \<or> \<not> connected (status s))
      then scheduleReconnect 0 s
      else s)"

text \<open>
  The state \<open>startInternal\<close> leaves when it succeeds with an enabled
  configuration: a client, both services, and the five bound callbacks.
\<close>

definition running :: "NimGateway \<Rightarrow> bool" where
  "running s \<longleftrightarrow>
     v2Client s \<noteq> None \<and> loginService s \<noteq> None \<and> messageService s \<noteq> None \<and>
     boundOnReceiveMessages s \<noteq> None \<and> boundOnLoginStatus s \<noteq> None \<and>
     boundOnKickedOffline s \<noteq> None \<and> boundOnLoginFailed s \<noteq> None \<and>
     boundOnDisconnected s \<noteq> None"

text \<open>A client never comes without its services and callbacks.\<close>

definition clientInvariant :: "NimGateway \<Rightarrow> bool" where
  "clientInvariant s \<longleftrightarrow> (v2Client s \<noteq> None \<longrightarrow> running s)"

section \<open>Outbound sending (nimGateway.ts, nimMedia.ts)\<close>

text \<open>
  Modelled from the spec: \<open>parseMediaMarkers\<close> and \<open>stripMediaMarkers\<close> are
  imported from \<open>dingtalkMediaParser\<close>, which is not among the sources; they
  are parameters here, and a marker is the local path it points at.
\<close>

record MediaMarker =
  path :: jsstring

datatype NimMediaType = NimImage | NimAudio | NimVideo | NimFile

text \<open>The message types of \<open>convertMessageType\<close> (type \<open>NimMessageType\<close> of the source).\<close>

datatype NimMessageType =
    MtText | MtImage | MtAudio | MtVideo | MtFile | MtGeo | MtNotification
  | MtCustom | MtTip | MtRobot | MtUnknown

text \<open>
  What the gateway's surroundings answer while it sends and receives: the two
  marker functions, the file system (\<open>existsSync\<close>), Node's \<open>path\<close> module and
  \<open>toLowerCase\<close>, the SDK's message creator (whether it returns a message),
  the SDK's \<open>sendMessage\<close> (\<open>Some\<close> the text of a rejection) and the media
  download for a URL and a message type (\<open>None\<close> when it fails).
\<close>

record Env =
  parseMediaMarkers :: "jsstring \<Rightarrow> MediaMarker list"
  stripMediaMarkers :: "jsstring \<Rightarrow> MediaMarker list \<Rightarrow> jsstring"
  existsSync :: "jsstring \<Rightarrow> bool"
  extname :: "jsstring \<Rightarrow> jsstring"
  basename :: "jsstring \<Rightarrow> jsstring"
  toLowerCase :: "jsstring \<Rightarrow> jsstring"
  createTextMessage :: "jsstring \<Rightarrow> bool"
  createMediaMessage :: "NimMediaType \<Rightarrow> jsstring \<Rightarrow> bool"
  sendMessage :: "jsstring \<Rightarrow> payload \<Rightarrow> jsstring option"
  downloadNimMedia :: "jsstring \<Rightarrow> NimMessageType \<Rightarrow> IMMediaAttachment option"

definition inferMediaType :: "Env \<Rightarrow> jsstring \<Rightarrow> NimMediaType" where
  "inferMediaType env filePath =
     (let ext = toLowerCase env (extname env filePath)
      in if ext \<in> set (map js [''.jpg'', ''.jpeg'', ''.png'', ''.gif'', ''.webp'', ''.bmp''])
         then NimImage
         else if ext \<in> set (map js [''.mp3'', ''.wav'', ''.aac'', ''.m4a'', ''.ogg'', ''.amr''])
         then NimAudio
         else if ext \<in> set (map js [''.mp4'', ''.mov'', ''.avi'', ''.mkv'', ''.webm'', ''.flv''])
         then NimVideo
         else NimFile)"

definition mediaTypeName :: "NimMediaType \<Rightarrow> jsstring" where
  "mediaTypeName t =
     (case t of NimImage \<Rightarrow> js ''image'' | NimAudio \<Rightarrow> js ''audio''
      | NimVideo \<Rightarrow> js ''video'' | NimFile \<Rightarrow> js ''file'')"

definition NotReady :: error where
  "NotReady = Error (js ''NIM SDK not ready'')"

text \<open>
  Each sending function returns what it raised, if anything, and the actions it
  performed up to there.
\<close>

definition sendText :: "Env \<Rightarrow> NimGateway \<Rightarrow> jsstring \<Rightarrow> jsstring \<Rightarrow> (error + unit) \<times> action list" where
  "sendText env s to txt =
     (if messageService s = None \<or> messageCreator s = None then (Inl NotReady, [])
      else if \<not> createTextMessage env txt
      then (Inl (Error (js ''Failed to create text message'')), [])
      else
        (let cid = buildConversationId (conversationIdUtil s) to P2P
         in case sendMessage env cid (TextPayload txt) of
              Some m \<Rightarrow> (Inl (Error m), [SdkSendMessage cid (TextPayload txt)])
            | None \<Rightarrow> (Inr (), [SdkSendMessage cid (TextPayload txt)])))"

text \<open>
  The loop of \<open>sendLongText\<close>; \<open>multi\<close> is \<open>chunks.length > 1\<close>. A chunk that
  fails ends the loop with its error.
\<close>

fun sendChunks :: "Env \<Rightarrow> NimGateway \<Rightarrow> jsstring \<Rightarrow> bool \<Rightarrow> jsstring list \<Rightarrow> (error + unit) \<times> action list" where
  "sendChunks env s to multi [] = (Inr (), [])"
| "sendChunks env s to multi (c # cs) =
     (case sendText env s to c of
        (Inl e, a) \<Rightarrow> (Inl e, a)
      | (Inr u, a) \<Rightarrow>
          (case sendChunks env s to multi cs of
             (r, a') \<Rightarrow> (r, a @ (if multi then [Delay 100] else []) @ a')))"

text \<open>\<open>None\<close>: the chunking does not return.\<close>

definition sendLongText :: "Env \<Rightarrow> NimGateway \<Rightarrow> jsstring \<Rightarrow> jsstring \<Rightarrow> ((error + unit) \<times> action list) option" where
  "sendLongText env s to txt =
     (case splitMessageIntoChunks txt MAX_MESSAGE_LENGTH of
        None \<Rightarrow> None
      | Some chunks \<Rightarrow> Some (sendChunks env s to (1 < length chunks) chunks))"

definition sendNimMediaMessage :: "Env \<Rightarrow> jsstring \<Rightarrow> jsstring \<Rightarrow> (error + unit) \<times> action list" where
  "sendNimMediaMessage env cid filePath =
     (if \<not> existsSync env filePath
      then (Inl (Error (js ''File not found: '' @ filePath)), [])
      else
        (let mediaType = inferMediaType env filePath;
             baseName = basename env filePath
         in if \<not> createMediaMessage env mediaType filePath
            then (Inl (Error (js ''Failed to create '' @ mediaTypeName mediaType @
                              js '' message for: '' @ baseName)), [])
            else
              (case sendMessage env cid (MediaPayload filePath) of
                 Some m \<Rightarrow> (Inl (Error m), [SdkSendMessage cid (MediaPayload filePath)])
               | None \<Rightarrow> (Inr (), [SdkSendMessage cid (MediaPayload filePath)]))))"

definition sendMedia :: "Env \<Rightarrow> NimGateway \<Rightarrow> jsstring \<Rightarrow> jsstring \<Rightarrow> (error + unit) \<times> action list" where
  "sendMedia env s to filePath =
     (if messageService s = None \<or> messageCreator s = None then (Inl NotReady, [])
      else sendNimMediaMessage env (buildConversationId (conversationIdUtil s) to P2P) filePath)"

text \<open>
  The marker loop of \<open>sendReplyWithMedia\<close>. A marker whose file is missing is
  passed over (\<open>continue\<close>, which also skips the wait); an error of \<open>sendMedia\<close>
  is caught, so only its actions remain; the wait is left out after the last
  marker.
\<close>

fun sendMarkers :: "Env \<Rightarrow> NimGateway \<Rightarrow> jsstring \<Rightarrow> MediaMarker list \<Rightarrow> action list" where
  "sendMarkers env s to [] = []"
| "sendMarkers env s to (m # ms) =
     (if \<not> existsSync env (path m) then sendMarkers env s to ms
      else snd (sendMedia env s to (path m)) @
           (if ms \<noteq> [] then [Delay 100] else []) @
           sendMarkers env s to ms)"

definition sendReplyWithMedia :: "Env \<Rightarrow> NimGateway \<Rightarrow> jsstring \<Rightarrow> jsstring \<Rightarrow> ((error + unit) \<times> action list) option" where
  "sendReplyWithMedia env s to txt =
     (let markers = parseMediaMarkers env txt
      in if markers = [] then sendLongText env s to txt
         else
           (let strippedText = stripMediaMarkers env txt markers
            in if trim strippedText \<noteq> [] then
                 (case sendLongText env s to strippedText of
                    None \<Rightarrow> None
                  | Some (Inl e, a) \<Rightarrow> Some (Inl e, a)
                  | Some (Inr u, a) \<Rightarrow>
                      Some (Inr (), a @ [Delay 100] @ sendMarkers env s to markers))
               else Some (Inr (), sendMarkers env s to markers)))"

section \<open>Deduplication cache (nimGateway.ts)\<close>

text \<open>
  The module-level map \<open>processedMessages\<close>, from message id to the time it was
  recorded. \<open>now\<close> is the reading of \<open>Date.now()\<close>.
\<close>

type_synonym processedMessages = "jsstring \<rightharpoonup> int"

definition MESSAGE_DEDUP_TTL :: int where
  "MESSAGE_DEDUP_TTL = 5 * 60 * 1000"

definition cleanupProcessedMessages :: "int \<Rightarrow> processedMessages \<Rightarrow> processedMessages" where
  "cleanupProcessedMessages now cache =
     (\<lambda>k. case cache k of
             None \<Rightarrow> None
           | Some ts \<Rightarrow> if now - ts > MESSAGE_DEDUP_TTL then None else Some ts)"

definition isMessageProcessed :: "int \<Rightarrow> jsstring \<Rightarrow> processedMessages \<Rightarrow> bool \<times> processedMessages" where
  "isMessageProcessed now mid cache =
     (let cache1 = cleanupProcessedMessages now cache
      in if cache1 mid \<noteq> None then (True, cache1)
         else (False, cache1(mid \<mapsto> now)))"

section \<open>Inbound messages (nimGateway.ts, handleIncomingMessage)\<close>

definition convertMessageType :: "int \<Rightarrow> NimMessageType" where
  "convertMessageType v2Type =
     (if v2Type = 0 then MtText else if v2Type = 1 then MtImage
      else if v2Type = 2 then MtAudio else if v2Type = 3 then MtVideo
      else if v2Type = 4 then MtGeo else if v2Type = 5 then MtNotification
      else if v2Type = 6 then MtFile else if v2Type = 10 then MtTip
      else if v2Type = 11 then MtRobot else if v2Type = 100 then MtCustom
      else MtUnknown)"

text \<open>
  The fields of an SDK message that the handler reads. A field that is absent is
  the empty string (ids, conversation id, text), \<open>0\<close> (\<open>createTime\<close>) or \<open>None\<close>
  (the attachment's URL): the handler reads each through \<open>||\<close> or a truth test.
\<close>

record V2NIMMessage =
  messageServerId :: jsstring
  messageClientId :: jsstring
  senderId :: jsstring
  messageType :: int
  conversationId :: jsstring
  "text" :: jsstring
  attachmentUrl :: "jsstring option"
  createTime :: int

definition inferMediaPlaceholder :: "NimMessageType \<Rightarrow> jsstring" where
  "inferMediaPlaceholder t =
     (case t of
        MtImage \<Rightarrow> [0x5B, 0x56FE, 0x7247, 0x5D]
      | MtAudio \<Rightarrow> [0x5B, 0x8BED, 0x97F3, 0x6D88, 0x606F, 0x5D]
      | MtVideo \<Rightarrow> [0x5B, 0x89C6, 0x9891, 0x5D]
      | MtFile \<Rightarrow> [0x5B, 0x6587, 0x4EF6, 0x5D]
      | _ \<Rightarrow> [0x5B, 0x591A, 0x5A92, 0x4F53, 0x6D88, 0x606F, 0x5D])"

text \<open>The text that precedes the error message in the reply sent when the callback raises.\<close>

definition callbackErrorPrefix :: jsstring where
  "callbackErrorPrefix =
     [0x62B1, 0x6B49, 0xFF0C, 0x5904, 0x7406, 0x6D88, 0x606F, 0x65F6, 0x51FA, 0x73B0,
      0x9519, 0x8BEF, 0xFF1A]"

text \<open>
  The allow-list of the configuration: the string is split at commas, each entry
  trimmed, empty entries dropped. Without a configuration, without the field,
  with an empty string or with no entry left, every sender passes.
\<close>

definition parseWhitelist :: "jsstring \<Rightarrow> jsstring list" where
  "parseWhitelist w = filter (\<lambda>e. e \<noteq> []) (map trim (split 0x2C w))"

definition whitelistAllows :: "NimConfig option \<Rightarrow> jsstring \<Rightarrow> bool" where
  "whitelistAllows cfg sender =
     (case cfg of
        None \<Rightarrow> True
      | Some c \<Rightarrow>
          (case accountWhitelist c of
             None \<Rightarrow> True
           | Some w \<Rightarrow>
               if w = [] then True
               else (let whitelist = parseWhitelist w
                     in if whitelist \<noteq> [] then sender \<in> set whitelist else True)))"

text \<open>\<open>this.config && senderId === this.config.account\<close>.\<close>

definition isSelf :: "NimConfig option \<Rightarrow> jsstring \<Rightarrow> bool" where
  "isSelf cfg sender = (case cfg of None \<Rightarrow> False | Some c \<Rightarrow> sender = account c)"

text \<open>
  Content and attachments of an accepted message; \<open>None\<close> is the return on an
  empty text.
\<close>

definition buildContent :: "Env \<Rightarrow> NimMessageType \<Rightarrow> V2NIMMessage \<Rightarrow> (jsstring \<times> IMMediaAttachment list) option" where
  "buildContent env msgType msg =
     (if msgType = MtText then
        (if trim (text msg) = [] then None else Some (text msg, []))
      else if msgType \<in> {MtImage, MtAudio, MtVideo, MtFile} then
        (let placeholder = inferMediaPlaceholder msgType
         in case attachmentUrl msg of
              None \<Rightarrow> Some (placeholder, [])
            | Some u \<Rightarrow>
                if u = [] then Some (placeholder, [])
                else Some (placeholder @ js '' '' @ u,
                           (case downloadNimMedia env u msgType of
                              Some a \<Rightarrow> [a] | None \<Rightarrow> [])))
      else Some ([], []))"

text \<open>
  \<open>replyFn\<close>: the reply is sent, and \<open>lastOutboundAt\<close> is set when the sending
  did not raise.
\<close>

definition replyFn :: "Env \<Rightarrow> int \<Rightarrow> jsstring \<Rightarrow> jsstring \<Rightarrow> NimGateway \<Rightarrow> ((error + unit) \<times> NimGateway) option" where
  "replyFn env now to txt s =
     (case sendReplyWithMedia env s to txt of
        None \<Rightarrow> None
      | Some (Inl e, a) \<Rightarrow> Some (Inl e, s\<lparr>trace := trace s @ a\<rparr>)
      | Some (Inr u, a) \<Rightarrow>
          Some (Inr (), s\<lparr>status := (status s)\<lparr>lastOutboundAt := Some now\<rparr>,
                          trace := trace s @ a\<rparr>))"

text \<open>
  The end of the handler, for an accepted message: the status and the
  notification target are updated, the \<open>message\<close> event is emitted and the
  callback, if one is registered, is invoked. When the callback raises, the
  apology is sent through \<open>replyFn\<close>; an error of that reply is caught by the
  handler's outer \<open>catch\<close>. What the callback itself does with \<open>replyFn\<close> is
  the application's and not part of the handler.
\<close>

definition deliver :: "Env \<Rightarrow> int \<Rightarrow> IMMessage \<Rightarrow> NimGateway \<Rightarrow> NimGateway option" where
  "deliver env now message s =
     (let s1 = s\<lparr>status := (status s)\<lparr>lastInboundAt := Some now\<rparr>,
                 lastSenderId := Some (im_senderId message),
                 trace := trace s @ [Emit (EvMessage message)]\<rparr>
      in case onMessageCallback s1 of
           None \<Rightarrow> Some s1
         | Some callback \<Rightarrow>
             (let s2 = s1\<lparr>trace := trace s1 @ [InvokeCallback message]\<rparr>
              in case callback message of
                   None \<Rightarrow> Some s2
                 | Some m \<Rightarrow>
                     map_option snd
                       (replyFn env now (im_senderId message) (callbackErrorPrefix @ m) s2)))"

text \<open>\<open>String(msg.messageServerId || msg.messageClientId || '')\<close>.\<close>

definition messageIdOf :: "V2NIMMessage \<Rightarrow> jsstring" where
  "messageIdOf msg =
     (if messageServerId msg \<noteq> [] then messageServerId msg else messageClientId msg)"

definition supportedTypes :: "NimMessageType list" where
  "supportedTypes = [MtText, MtImage, MtAudio, MtVideo, MtFile]"

definition handleIncomingMessage :: "Env \<Rightarrow> int \<Rightarrow> V2NIMMessage \<Rightarrow> processedMessages \<times> NimGateway \<Rightarrow> (processedMessages \<times> NimGateway) option" where
  "handleIncomingMessage env now msg cs =
     (case cs of (cache, s) \<Rightarrow>
     (let msgId = messageIdOf msg;
          sender = senderId msg
      in if isSelf (config s) sender then Some (cache, s)
         else if \<not> whitelistAllows (config s) sender then Some (cache, s)
         else
           (case isMessageProcessed now msgId cache of
              (True, cache1) \<Rightarrow> Some (cache1, s)
            | (False, cache1) \<Rightarrow>
                (let msgType = convertMessageType (messageType msg)
                 in if msgType \<notin> set supportedTypes then Some (cache1, s)
                    else if sessionType (parseConversationId (conversationId msg)) \<noteq> P2P
                    then Some (cache1, s)
                    else
                      (case buildContent env msgType msg of
                         None \<Rightarrow> Some (cache1, s)
                       | Some (cont, atts) \<Rightarrow>
                           map_option (Pair cache1)
                             (deliver env now
                                \<lparr>platform = js ''nim'', messageId = msgId,
                                 im_conversationId =
                                   (if conversationId msg \<noteq> [] then conversationId msg
                                    else sender),
                                 im_senderId = sender, content = cont,
                                 chatType = js ''direct'',
                                 timestamp = (if createTime msg \<noteq> 0 then createTime msg
                                              else now),
                                 attachments = (if atts \<noteq> [] then Some atts else None)\<rparr>
                                s))))))"

text \<open>
  Readings of a list of actions: the messages emitted, the messages the
  callback was invoked with, and the native sends (conversation and payload).
\<close>

definition emitted :: "action list \<Rightarrow> IMMessage list" where
  "emitted acts = concat (map (\<lambda>a. case a of Emit (EvMessage m) \<Rightarrow> [m] | _ \<Rightarrow> []) acts)"

definition invoked :: "action list \<Rightarrow> IMMessage list" where
  "invoked acts = concat (map (\<lambda>a. case a of InvokeCallback m \<Rightarrow> [m] | _ \<Rightarrow> []) acts)"

definition sends :: "action list \<Rightarrow> (jsstring \<times> payload) list" where
  "sends acts = concat (map (\<lambda>a. case a of SdkSendMessage c p \<Rightarrow> [(c, p)] | _ \<Rightarrow> []) acts)"



text \<open>
  Whether \<open>sendMedia\<close> reaches the native \<open>sendMessage\<close> for a marker: the
  services are there, the file exists and the creator returns a message.
\<close>

definition mediaGoesOut :: "Env \<Rightarrow> NimGateway \<Rightarrow> MediaMarker \<Rightarrow> bool" where
  "mediaGoesOut env s m \<longleftrightarrow>
     existsSync env (path m) \<and> messageService s \<noteq> None \<and> messageCreator s \<noteq> None \<and>
     createMediaMessage env (inferMediaType env (path m)) (path m)"



section \<open>Example inputs\<close>

definition okSdk :: Sdk where
  "okSdk =
     \<lparr>loadError = None, dataPathError = None, initError = None,
      sdkLoginService = Some V2NIMLoginService,
      sdkMessageService = Some V2NIMMessageService,
      sdkMessageCreator = Some V2NIMMessageCreator,
      sdkConversationIdUtil = None, offRaises = (\<lambda>l. False)\<rparr>"

definition brokenSdk :: Sdk where
  "brokenSdk = okSdk\<lparr>initError := Some (js ''bad appkey'')\<rparr>"

text \<open>An SDK whose \<open>off\<close> raises for the \<open>receiveMessages\<close> listener.\<close>

definition throwingSdk :: Sdk where
  "throwingSdk = okSdk\<lparr>offRaises := (\<lambda>l. l = OnReceiveMessages)\<rparr>"

definition botConfig :: NimConfig where
  "botConfig =
     \<lparr>enabled = True, appKey = js ''key'', account = js ''bot'', token = js ''secret'',
      accountWhitelist = Some (js ''a,b''), debug = False\<rparr>"

definition startedGateway :: NimGateway where
  "startedGateway = snd (start okSdk botConfig newGateway)"

text \<open>
  A gateway whose start failed in \<open>init\<close> and which then got an external
  reconnection trigger: no client, and a reconnect timer pending.
\<close>

definition retryingGateway :: NimGateway where
  "retryingGateway = reconnectIfNeeded (snd (start brokenSdk botConfig newGateway))"

definition noPartial :: NimConfigPartial where
  "noPartial =
     \<lparr>new_enabled = None, new_appKey = None, new_account = None, new_token = None,
      new_accountWhitelist = None, new_debug = None\<rparr>"


text \<open>
  Surroundings in which a reply carries three markers: the file of the first is
  rejected by \<open>sendMessage\<close>, the file of the second does not exist, the third
  goes through.
\<close>

definition threeMarkers :: "MediaMarker list" where
  "threeMarkers = [\<lparr>path = js ''/tmp/a.png''\<rparr>, \<lparr>path = js ''/tmp/gone.png''\<rparr>,
                   \<lparr>path = js ''/tmp/b.pdf''\<rparr>]"

definition exampleEnv :: Env where
  "exampleEnv =
     \<lparr>parseMediaMarkers = (\<lambda>t. if t = js ''plain'' then [] else threeMarkers),
      stripMediaMarkers = (\<lambda>t ms. js ''Here: and''),
      existsSync = (\<lambda>p. p \<noteq> js ''/tmp/gone.png''),
      extname = (\<lambda>p. drop (length p - 4) p),
      basename = (\<lambda>p. drop 5 p),
      toLowerCase = (\<lambda>p. p),
      createTextMessage = (\<lambda>t. True),
      createMediaMessage = (\<lambda>k p. True),
      sendMessage = (\<lambda>c p. if p = MediaPayload (js ''/tmp/a.png'')
                             then Some (js ''timeout'') else None),
      downloadNimMedia = (\<lambda>u t. None)\<rparr>"

text \<open>The same surroundings, but \<open>sendMessage\<close> rejects every text message.\<close>

definition rejectTextEnv :: Env where
  "rejectTextEnv =
     exampleEnv\<lparr>sendMessage :=
       (\<lambda>c p. case p of TextPayload t \<Rightarrow> Some (js ''timeout'') | MediaPayload f \<Rightarrow> None)\<rparr>"

section \<open>Properties of the chunking\<close>

lemma lastIndexOf_range:
  "lastIndexOf s c k = - 1 \<or> (0 \<le> lastIndexOf s c k \<and> lastIndexOf s c k \<le> int k)"
  by (induction k) auto

lemma splitIndex_bounds:
  assumes "1 \<le> n"
  shows "1 \<le> splitIndex n r \<and> splitIndex n r \<le> n"
proof -
  have a: "lastIndexOf r 0x0A n = - 1 \<or>
      (0 \<le> lastIndexOf r 0x0A n \<and> lastIndexOf r 0x0A n \<le> int n)"
    by (rule lastIndexOf_range)
  have b: "lastIndexOf r 0x20 n = - 1 \<or>
      (0 \<le> lastIndexOf r 0x20 n \<and> lastIndexOf r 0x20 n \<le> int n)"
    by (rule lastIndexOf_range)
  show ?thesis using assms a b
    unfolding splitIndex_def Let_def by (auto split: if_splits)
qed

text \<open>
  The loop returns for every positive bound: each round takes at least one code
  unit off \<open>remaining\<close>.
\<close>

lemma chunkLoop_returns:
  assumes "1 \<le> n"
  shows "\<exists>ds. chunkLoop n r cs = Some ds"
proof (induction "length r" arbitrary: r cs rule: less_induct)
  case less
  show ?case
  proof (cases "r = [] \<or> length r \<le> n")
    case True
    then show ?thesis by (subst chunkLoop.simps) auto
  next
    case False
    let ?i = "splitIndex n r"
    let ?r' = "trimStart (drop ?i r)"
    have "1 \<le> ?i" using splitIndex_bounds [OF assms, of r] by simp
    moreover have "length ?r' \<le> length (drop ?i r)"
      unfolding trimStart_def by (rule length_dropWhile_le)
    ultimately have "length ?r' < length r" using False by auto
    from less [OF this, of "cs @ [take ?i r]"] False
    show ?thesis by (subst chunkLoop.simps) simp
  qed
qed

text \<open>What the loop appends are chunks within the bound that reproduce \<open>remaining\<close>.\<close>

lemma chunkLoop_spec:
  assumes "1 \<le> n"
  shows "\<exists>ds. chunkLoop n r cs = Some (cs @ ds) \<and> (\<forall>d \<in> set ds. length d \<le> n) \<and>
          reproduces ds r"
proof (induction "length r" arbitrary: r cs rule: less_induct)
  case less
  show ?case
  proof (cases "r = []")
    case True
    then show ?thesis by (subst chunkLoop.simps) simp
  next
    case False
    show ?thesis
    proof (cases "length r \<le> n")
      case True
      with False show ?thesis by (subst chunkLoop.simps) (simp add: trimStart_def)
    next
      case long: False
      let ?i = "splitIndex n r"
      let ?r' = "trimStart (drop ?i r)"
      have i: "1 \<le> ?i" "?i \<le> n" using splitIndex_bounds [OF assms, of r] by auto
      have "length ?r' \<le> length (drop ?i r)"
        unfolding trimStart_def by (rule length_dropWhile_le)
      with i long have "length ?r' < length r" by simp
      from less [OF this, of "cs @ [take ?i r]"]
      obtain ds where ds:
        "chunkLoop n ?r' (cs @ [take ?i r]) = Some ((cs @ [take ?i r]) @ ds)"
        "\<forall>d \<in> set ds. length d \<le> n" "reproduces ds ?r'" by blast
      have len: "length (take ?i r) = ?i" using i long by simp
      have "chunkLoop n r cs = Some (cs @ (take ?i r # ds))"
        using False long ds(1) by (subst chunkLoop.simps) simp
      moreover have "\<forall>d \<in> set (take ?i r # ds). length d \<le> n"
        using ds(2) i by simp
      moreover have "reproduces (take ?i r # ds) r"
        using ds(3) len by simp
      ultimately show ?thesis by blast
    qed
  qed
qed

text \<open>
  Read without \<open>trimStart\<close>: the text is the chunks with a run of white space
  after each of them.
\<close>

lemma reproduces_gaps:
  "reproduces cs t \<Longrightarrow>
   \<exists>gaps. length gaps = length cs \<and> t = concat (map2 (@) cs gaps) \<and>
          (\<forall>g \<in> set gaps. \<forall>u \<in> set g. isWhiteSpace u)"
proof (induction cs arbitrary: t)
  case Nil
  then show ?case by simp
next
  case (Cons c cs)
  let ?rest = "drop (length c) t"
  let ?g = "takeWhile isWhiteSpace ?rest"
  from Cons.prems have c: "take (length c) t = c"
    and r: "reproduces cs (trimStart ?rest)"
    by simp_all
  from Cons.IH [OF r] obtain gaps where gaps: "length gaps = length cs"
    "trimStart ?rest = concat (map2 (@) cs gaps)"
    "\<forall>g \<in> set gaps. \<forall>u \<in> set g. isWhiteSpace u" by blast
  have "t = take (length c) t @ ?rest" by simp
  also have "\<dots> = c @ ?g @ trimStart ?rest"
    by (simp add: c trimStart_def)
  finally have "t = concat (map2 (@) (c # cs) (?g # gaps))"
    using gaps(2) by simp
  moreover have "\<forall>g \<in> set (?g # gaps). \<forall>u \<in> set g. isWhiteSpace u"
    using gaps(3) by (auto dest: set_takeWhileD)
  moreover have "length (?g # gaps) = length (c # cs)" using gaps(1) by simp
  ultimately show ?case by blast
qed

text \<open>
  Claim C2. For every text \<open>t\<close> and every bound \<open>n \<ge> 1\<close>,
  \<open>splitMessageIntoChunks\<close> returns; every chunk it returns has at most \<open>n\<close>
  code units; and the chunks reproduce \<open>t\<close> up to the leading white space
  trimmed from each remainder: \<open>t\<close> starts with the first chunk, the rest of
  \<open>t\<close> with its leading white space removed starts with the second, and so on
  (a remainder of white space only is trimmed to nothing and gives no chunk), so
  that \<open>t\<close> is the chunks in order with a run of white space after each.
\<close>

theorem splitMessageIntoChunks_roundtrip:
  assumes "1 \<le> n"
  shows "\<exists>cs. splitMessageIntoChunks t n = Some cs \<and>
           (\<forall>c \<in> set cs. length c \<le> n) \<and>
           reproduces cs t \<and>
           (\<exists>gaps. length gaps = length cs \<and> t = concat (map2 (@) cs gaps) \<and>
              (\<forall>g \<in> set gaps. \<forall>u \<in> set g. isWhiteSpace u))"
proof (cases "length t \<le> n")
  case True
  then have "splitMessageIntoChunks t n = Some [t]"
    by (simp add: splitMessageIntoChunks_def)
  moreover have "reproduces [t] t" by (simp add: trimStart_def)
  moreover have "\<forall>c \<in> set [t]. length c \<le> n" using True by simp
  ultimately show ?thesis using reproduces_gaps [of "[t]" t] by blast
next
  case False
  from chunkLoop_spec [OF assms, of t "[]"]
  obtain ds where ds: "chunkLoop n t [] = Some ds" "\<forall>d \<in> set ds. length d \<le> n"
    "reproduces ds t" by auto
  from False ds(1) have "splitMessageIntoChunks t n = Some ds"
    by (simp add: splitMessageIntoChunks_def)
  then show ?thesis using ds(2,3) reproduces_gaps [OF ds(3)] by blast
qed

theorem splitMessageIntoChunks_roundtrip_witness:
  "(1::nat) \<le> 2 \<and>
   (\<exists>cs. splitMessageIntoChunks (js ''ab   cd'') 2 = Some cs \<and>
      (\<forall>c \<in> set cs. length c \<le> 2) \<and>
      reproduces cs (js ''ab   cd'') \<and>
      (\<exists>gaps. length gaps = length cs \<and> js ''ab   cd'' = concat (map2 (@) cs gaps) \<and>
         (\<forall>g \<in> set gaps. \<forall>u \<in> set g. isWhiteSpace u)))"
  using splitMessageIntoChunks_roundtrip [of 2 "js ''ab   cd''"] by simp

section \<open>Properties of start and stop\<close>

lemmas example_defs = okSdk_def botConfig_def startedGateway_def newGateway_def

lemma startBody_config: "config (snd (startBody sdk cfg s)) = config s"
  by (simp add: startBody_def Let_def split: option.splits)

lemma startedGateway_running: "running startedGateway"
  by (simp add: example_defs start_def startInternal_def startBody_def Let_def
      running_def js_def)

lemma startedGateway_config: "config startedGateway = Some botConfig"
  by (simp add: example_defs start_def startInternal_def startBody_def Let_def js_def)

lemma retryingGateway_facts:
  "v2Client retryingGateway = None" "reconnectTimer retryingGateway = Some 0"
  "\<not> stopRequested retryingGateway"
  by (simp_all add: retryingGateway_def brokenSdk_def example_defs start_def
      startInternal_def startBody_def startCatch_def cleanup_def Let_def
      reconnectIfNeeded_def scheduleReconnect_def js_def SdkInitFailed_def)

text \<open>
  Claim C3. The checks of \<open>start\<close>, in their order. With a client already
  there, \<open>start\<close> raises the already-running error and changes nothing but the
  stop-requested flag. Otherwise, with \<open>enabled\<close> false, it stores the
  configuration and returns without creating a client. Otherwise, with an
  application key, account or token missing, it raises the missing-credentials
  error (the configuration is stored by then). In the remaining case, when the
  SDK loads, initialises and provides both services, \<open>start\<close> returns without
  an error, with the client, the services and the five callbacks in place.
\<close>

theorem start_cases:
  "(v2Client s \<noteq> None \<longrightarrow>
      start sdk cfg s = (Inl AlreadyRunning, s\<lparr>stopRequested := False\<rparr>)) \<and>
   (v2Client s = None \<and> \<not> enabled cfg \<longrightarrow>
      start sdk cfg s = (Inr (), s\<lparr>stopRequested := False, config := Some cfg\<rparr>)) \<and>
   (v2Client s = None \<and> enabled cfg \<and>
    (appKey cfg = [] \<or> account cfg = [] \<or> token cfg = []) \<longrightarrow>
      start sdk cfg s =
        (Inl MissingCredentials, s\<lparr>stopRequested := False, config := Some cfg\<rparr>)) \<and>
   (v2Client s = None \<and> enabled cfg \<and>
    appKey cfg \<noteq> [] \<and> account cfg \<noteq> [] \<and> token cfg \<noteq> [] \<and>
    loadError sdk = None \<and> dataPathError sdk = None \<and> initError sdk = None \<and>
    sdkLoginService sdk \<noteq> None \<and> sdkMessageService sdk \<noteq> None \<longrightarrow>
      fst (start sdk cfg s) = Inr () \<and> running (snd (start sdk cfg s)) \<and>
      config (snd (start sdk cfg s)) = Some cfg)"
  by (auto simp: start_def startInternal_def startBody_def Let_def running_def)

theorem start_cases_witness:
  "fst (start okSdk botConfig startedGateway) = Inl AlreadyRunning \<and>
   start okSdk (botConfig\<lparr>enabled := False\<rparr>) newGateway =
     (Inr (),
      newGateway\<lparr>stopRequested := False,
                 config := Some (botConfig\<lparr>enabled := False\<rparr>)\<rparr>) \<and>
   start okSdk (botConfig\<lparr>token := []\<rparr>) newGateway =
     (Inl MissingCredentials,
      newGateway\<lparr>stopRequested := False, config := Some (botConfig\<lparr>token := []\<rparr>)\<rparr>) \<and>
   fst (start okSdk botConfig newGateway) = Inr () \<and>
   running (snd (start okSdk botConfig newGateway))"
proof -
  have r: "v2Client startedGateway \<noteq> None"
    using startedGateway_running by (simp add: running_def)
  have n: "v2Client newGateway = None" by (simp add: newGateway_def)
  show ?thesis
    using start_cases [where s = startedGateway and sdk = okSdk and cfg = botConfig]
      start_cases [where s = newGateway and sdk = okSdk
        and cfg = "botConfig\<lparr>enabled := False\<rparr>"]
      start_cases [where s = newGateway and sdk = okSdk
        and cfg = "botConfig\<lparr>token := []\<rparr>"]
      start_cases [where s = newGateway and sdk = okSdk and cfg = botConfig]
      r n
    by (simp add: okSdk_def botConfig_def js_def)
qed

text \<open>
  Claim C4, as amended. When there is no client, \<open>stop\<close> does not raise,
  performs no action (no native call, no event, no settle delay) and leaves the
  configuration, the status, the native references and the notification target
  as they are; it does set the stop-requested flag, cancel a pending reconnect
  timer and reset the reconnect counter. In every state, a \<open>stop\<close> that follows
  a \<open>stop\<close> changes nothing at all, so \<open>stop\<close> twice is \<open>stop\<close> once.
\<close>

theorem stop_without_handle:
  "(v2Client s = None \<longrightarrow>
      stop sdk s =
        (Inr (),
         s\<lparr>stopRequested := True, reconnectTimer := None, reconnectAttempts := 0\<rparr>)) \<and>
   stop sdk' (snd (stop sdk s)) = (Inr (), snd (stop sdk s))"
  by (auto simp: stop_def stopInternal_def Let_def cleanup_def)

theorem stop_without_handle_witness:
  "v2Client retryingGateway = None \<and>
   stop okSdk retryingGateway =
     (Inr (),
      retryingGateway\<lparr>stopRequested := True, reconnectTimer := None,
                      reconnectAttempts := 0\<rparr>) \<and>
   stop okSdk (snd (stop okSdk retryingGateway)) = (Inr (), snd (stop okSdk retryingGateway))"
  using stop_without_handle [of retryingGateway okSdk okSdk] retryingGateway_facts(1)
  by blast

text \<open>
  The claim as it was stated fails: a gateway without a client, waiting for a
  reconnect, is changed by \<open>stop\<close>, which cancels the timer and sets the flag.
\<close>

theorem stop_unchanged_counterexample:
  "v2Client retryingGateway = None \<and>
   snd (stop okSdk retryingGateway) \<noteq> retryingGateway \<and>
   reconnectTimer retryingGateway = Some 0 \<and>
   reconnectTimer (snd (stop okSdk retryingGateway)) = None \<and>
   \<not> stopRequested retryingGateway \<and> stopRequested (snd (stop okSdk retryingGateway))"
proof -
  note a = retryingGateway_facts
  have c: "reconnectTimer (snd (stop okSdk retryingGateway)) = None"
    "stopRequested (snd (stop okSdk retryingGateway))"
    using a(1) by (simp_all add: stop_def stopInternal_def Let_def)
  from a(2) c(1) have "snd (stop okSdk retryingGateway) \<noteq> retryingGateway" by auto
  with a c show ?thesis by simp
qed

text \<open>
  The invariant holds for a new gateway and is kept by every operation, so that
  it holds whenever \<open>stop\<close> is called.
\<close>

lemma clientInvariant_newGateway: "clientInvariant newGateway"
  by (simp add: clientInvariant_def newGateway_def)

lemma clientInvariant_start:
  "clientInvariant s \<Longrightarrow> clientInvariant (snd (start sdk cfg s))"
  by (auto simp: clientInvariant_def running_def start_def startInternal_def startBody_def
      startCatch_def cleanup_def Let_def split: option.splits error.splits)

lemma clientInvariant_stop: "clientInvariant (snd (stop sdk s))"
  by (simp add: clientInvariant_def stop_def stopInternal_def cleanup_def Let_def)

lemma clientInvariant_updateConfig:
  "clientInvariant s \<Longrightarrow> clientInvariant (updateConfig p s)"
  by (simp add: clientInvariant_def running_def updateConfig_def split: option.splits)

lemma clientInvariant_reconnectIfNeeded:
  "clientInvariant s \<Longrightarrow> clientInvariant (reconnectIfNeeded s)"
  by (simp add: clientInvariant_def running_def reconnectIfNeeded_def scheduleReconnect_def
      Let_def)

lemma boundListeners_running:
  "running s \<Longrightarrow>
   boundListeners s =
     [OnReceiveMessages, OnLoginStatus, OnKickedOffline, OnLoginFailed, OnDisconnected]"
  by (simp add: boundListeners_def running_def)

lemma offCalls_none: "\<forall>l. \<not> raises l \<Longrightarrow> offCalls raises ls = map SdkOff ls"
  by (induction ls) simp_all

lemma offCalls_only_off:
  "\<forall>a \<in> set (offCalls raises ls). \<exists>l. a = SdkOff l \<or> a = SdkOffThrows l"
  by (induction ls) simp_all

text \<open>
  Claim C5, as amended. When \<open>stop\<close> is called with a client in place, it does
  not raise, and its actions are, in this order: \<open>off\<close> calls, then \<open>uninit\<close>,
  then the \<open>disconnected\<close> event and the settle delay. So \<open>uninit\<close> is invoked
  in every execution, after the \<open>off\<close> calls (an exception of an \<open>off\<close> call is
  caught and ignored), and when no \<open>off\<close> call raises, all five callbacks are
  unregistered before \<open>uninit\<close> is invoked. Afterwards, in every execution, the
  client, both services, the message creator and the conversation-id utility
  are null, no reconnect timer is pending and the status is disconnected.
\<close>

theorem stop_running:
  assumes "v2Client s \<noteq> None" and "clientInvariant s"
  shows "fst (stop sdk s) = Inr () \<and>
     (\<exists>offs.
        trace (snd (stop sdk s)) =
          trace s @ offs @ [SdkUninit, Emit EvDisconnected, Delay 1000] \<and>
        (\<forall>a \<in> set offs. \<exists>l. a = SdkOff l \<or> a = SdkOffThrows l) \<and>
        ((\<forall>l. \<not> offRaises sdk l) \<longrightarrow>
           offs = [SdkOff OnReceiveMessages, SdkOff OnLoginStatus, SdkOff OnKickedOffline,
                   SdkOff OnLoginFailed, SdkOff OnDisconnected])) \<and>
     v2Client (snd (stop sdk s)) = None \<and> loginService (snd (stop sdk s)) = None \<and>
     messageService (snd (stop sdk s)) = None \<and>
     messageCreator (snd (stop sdk s)) = None \<and>
     conversationIdUtil (snd (stop sdk s)) = None \<and>
     reconnectTimer (snd (stop sdk s)) = None \<and>
     \<not> connected (status (snd (stop sdk s)))"
proof -
  let ?five = "[OnReceiveMessages, OnLoginStatus, OnKickedOffline, OnLoginFailed,
      OnDisconnected]"
  let ?offs = "offCalls (offRaises sdk) ?five"
  from assms have r: "running s" by (simp add: clientInvariant_def)
  have b: "boundListeners (s\<lparr>stopRequested := True, reconnectTimer := None,
                             reconnectAttempts := 0\<rparr>) = ?five"
    using r by (simp add: boundListeners_def running_def)
  have t: "trace (snd (stop sdk s)) =
      trace s @ ?offs @ [SdkUninit, Emit EvDisconnected, Delay 1000]"
    using assms(1) b
    by (simp add: stop_def stopInternal_def Let_def cleanup_def removeListeners_def
        del: offCalls.simps)
  have o: "\<forall>a \<in> set ?offs. \<exists>l. a = SdkOff l \<or> a = SdkOffThrows l"
    by (rule offCalls_only_off)
  have n: "?offs = [SdkOff OnReceiveMessages, SdkOff OnLoginStatus, SdkOff OnKickedOffline,
                   SdkOff OnLoginFailed, SdkOff OnDisconnected]"
    if "\<forall>l. \<not> offRaises sdk l"
    using offCalls_none [OF that, of ?five] by simp
  have f: "fst (stop sdk s) = Inr ()" "v2Client (snd (stop sdk s)) = None"
    "loginService (snd (stop sdk s)) = None" "messageService (snd (stop sdk s)) = None"
    "messageCreator (snd (stop sdk s)) = None"
    "conversationIdUtil (snd (stop sdk s)) = None"
    "reconnectTimer (snd (stop sdk s)) = None"
    "\<not> connected (status (snd (stop sdk s)))"
    using assms(1) by (auto simp: stop_def stopInternal_def Let_def cleanup_def)
  show ?thesis using t o n f by blast
qed

theorem stop_running_witness:
  "v2Client startedGateway \<noteq> None \<and> clientInvariant startedGateway \<and>
   (\<forall>l. \<not> offRaises okSdk l) \<and>
   trace (snd (stop okSdk startedGateway)) = trace startedGateway @
       [SdkOff OnReceiveMessages, SdkOff OnLoginStatus, SdkOff OnKickedOffline,
        SdkOff OnLoginFailed, SdkOff OnDisconnected, SdkUninit,
        Emit EvDisconnected, Delay 1000] \<and>
   v2Client (snd (stop okSdk startedGateway)) = None \<and>
   \<not> connected (status (snd (stop okSdk startedGateway)))"
proof -
  have a: "v2Client startedGateway \<noteq> None" "clientInvariant startedGateway"
    using startedGateway_running by (simp_all add: running_def clientInvariant_def)
  have o: "\<forall>l. \<not> offRaises okSdk l" by (simp add: okSdk_def)
  show ?thesis using stop_running [OF a, of okSdk] a o by auto
qed

text \<open>
  The claim as it was stated fails: when the first \<open>off\<close> call raises, \<open>uninit\<close>
  is invoked although no \<open>off\<close> call was made for the four callbacks of the
  login service.
\<close>

theorem stop_running_counterexample:
  "v2Client startedGateway \<noteq> None \<and>
   trace (snd (stop throwingSdk startedGateway)) = trace startedGateway @
     [SdkOffThrows OnReceiveMessages, SdkUninit, Emit EvDisconnected, Delay 1000] \<and>
   SdkOn OnLoginStatus \<in> set (trace startedGateway) \<and>
   SdkOff OnLoginStatus \<notin> set (trace (snd (stop throwingSdk startedGateway)))"
proof -
  have r: "running startedGateway" by (rule startedGateway_running)
  then have a: "v2Client startedGateway \<noteq> None" by (simp add: running_def)
  have b: "boundListeners (startedGateway\<lparr>stopRequested := True, reconnectTimer := None,
                             reconnectAttempts := 0\<rparr>) =
      [OnReceiveMessages, OnLoginStatus, OnKickedOffline, OnLoginFailed, OnDisconnected]"
    using r by (simp add: boundListeners_def running_def)
  have tr: "trace startedGateway =
      [SdkCreate, SdkInit (appKey botConfig), SdkOn OnReceiveMessages, SdkOn OnLoginStatus,
       SdkOn OnKickedOffline, SdkOn OnLoginFailed, SdkOn OnDisconnected,
       SdkLogin (account botConfig) (token botConfig)]"
    by (simp add: example_defs start_def startInternal_def startBody_def Let_def js_def)
  have t: "trace (snd (stop throwingSdk startedGateway)) = trace startedGateway @
     [SdkOffThrows OnReceiveMessages, SdkUninit, Emit EvDisconnected, Delay 1000]"
    using a b
    by (simp add: stop_def stopInternal_def Let_def cleanup_def removeListeners_def
        throwingSdk_def)
  show ?thesis using a t tr by simp
qed

text \<open>
  Claim C6. When the checks of \<open>start\<close> pass and its initialization body
  raises an error with message \<open>m\<close>, then \<open>start\<close> raises that same error; the
  client, the services, the message creator and the conversation-id utility are
  null; the stored configuration is the one given to \<open>start\<close>; the status has
  \<open>lastError = m\<close> and \<open>connected = false\<close>; and the last action is the \<open>error\<close>
  event carrying \<open>m\<close>.
\<close>

theorem start_raise:
  assumes "v2Client s = None" "enabled cfg"
    and "appKey cfg \<noteq> []" "account cfg \<noteq> []" "token cfg \<noteq> []"
    and "fst (startBody sdk cfg (s\<lparr>stopRequested := False, config := Some cfg\<rparr>)) =
           Inl (Error m)"
  shows "fst (start sdk cfg s) = Inl (Error m) \<and>
     v2Client (snd (start sdk cfg s)) = None \<and>
     loginService (snd (start sdk cfg s)) = None \<and>
     messageService (snd (start sdk cfg s)) = None \<and>
     messageCreator (snd (start sdk cfg s)) = None \<and>
     conversationIdUtil (snd (start sdk cfg s)) = None \<and>
     config (snd (start sdk cfg s)) = Some cfg \<and>
     lastError (status (snd (start sdk cfg s))) = Some m \<and>
     \<not> connected (status (snd (start sdk cfg s))) \<and>
     last (trace (snd (start sdk cfg s))) = Emit (EvError m)"
proof -
  let ?s1 = "s\<lparr>stopRequested := False, config := Some cfg\<rparr>"
  obtain r s2 where b: "startBody sdk cfg ?s1 = (r, s2)"
    by (cases "startBody sdk cfg ?s1")
  with assms(6) have r: "r = Inl (Error m)" by simp
  have c: "config s2 = Some cfg" using startBody_config [of sdk cfg ?s1] b by simp
  have "start sdk cfg s = startCatch (Error m) s2"
    using assms(1-5) b r by (simp add: start_def startInternal_def)
  then show ?thesis using c by (simp add: startCatch_def cleanup_def Let_def)
qed

theorem start_raise_witness:
  "fst (start brokenSdk botConfig newGateway) =
     Inl (Error (js ''NIM SDK V2 initialization failed: bad appkey'')) \<and>
   v2Client (snd (start brokenSdk botConfig newGateway)) = None \<and>
   config (snd (start brokenSdk botConfig newGateway)) = Some botConfig \<and>
   lastError (status (snd (start brokenSdk botConfig newGateway))) =
     Some (js ''NIM SDK V2 initialization failed: bad appkey'') \<and>
   last (trace (snd (start brokenSdk botConfig newGateway))) =
     Emit (EvError (js ''NIM SDK V2 initialization failed: bad appkey''))"
proof -
  have b: "fst (startBody brokenSdk botConfig
                 (newGateway\<lparr>stopRequested := False, config := Some botConfig\<rparr>)) =
      Inl (Error (js ''NIM SDK V2 initialization failed: bad appkey''))"
    by (simp add: startBody_def brokenSdk_def okSdk_def Let_def SdkInitFailed_def js_def)
  have c: "v2Client newGateway = None" "enabled botConfig" "appKey botConfig \<noteq> []"
    "account botConfig \<noteq> []" "token botConfig \<noteq> []"
    by (simp_all add: newGateway_def botConfig_def js_def)
  show ?thesis using start_raise [OF c b] by simp
qed

text \<open>
  Claim C10. While no configuration is stored, \<open>updateConfig\<close> leaves the whole
  gateway state as it is (the stored configuration stays null, and a later
  \<open>start\<close> behaves as if \<open>updateConfig\<close> had not been called). When a
  configuration is stored, \<open>updateConfig\<close> replaces it by its merge with the
  partial one and changes nothing else.
\<close>

theorem updateConfig_frame:
  "(config s = None \<longrightarrow>
      updateConfig p s = s \<and> start sdk cfg (updateConfig p s) = start sdk cfg s) \<and>
   (\<forall>c. config s = Some c \<longrightarrow>
      updateConfig p s = s\<lparr>config := Some (mergeConfig c p)\<rparr>)"
  by (simp add: updateConfig_def)

theorem updateConfig_frame_witness:
  "config newGateway = None \<and>
   updateConfig (noPartial\<lparr>new_accountWhitelist := Some (Some (js ''a''))\<rparr>) newGateway =
     newGateway \<and>
   config startedGateway = Some botConfig \<and>
   updateConfig (noPartial\<lparr>new_accountWhitelist := Some (Some (js ''a''))\<rparr>)
       startedGateway =
     startedGateway\<lparr>config := Some (botConfig\<lparr>accountWhitelist := Some (js ''a'')\<rparr>)\<rparr>"
proof -
  let ?p = "noPartial\<lparr>new_accountWhitelist := Some (Some (js ''a''))\<rparr>"
  have n: "config newGateway = None" by (simp add: newGateway_def)
  have m: "mergeConfig botConfig ?p = botConfig\<lparr>accountWhitelist := Some (js ''a'')\<rparr>"
    by (simp add: mergeConfig_def noPartial_def botConfig_def)
  show ?thesis
    using updateConfig_frame [where s = newGateway and p = ?p]
      updateConfig_frame [where s = startedGateway and p = ?p]
      n startedGateway_config m by simp
qed

section \<open>Properties of the conversation identifiers\<close>

lemma split_no_sep: "sep \<notin> set t \<Longrightarrow> split sep t = [t]"
  by (induction t) auto

lemma split_append_sep: "sep \<notin> set xs \<Longrightarrow> split sep (xs @ sep # ys) = xs # split sep ys"
  by (induction xs) auto

lemma parseInt_digit: "parseInt [0x31] = Some 1" "parseInt [0x32] = Some 2" "parseInt [0x33] = Some 3"
  by (simp_all add: parseInt_def trimStart_def isWhiteSpace_def isDigit_def)

lemma fallback_shape:
  "buildConversationId None t st =
     [0x30] @ 0x7C # ((case st of P2P \<Rightarrow> [0x31] | Team \<Rightarrow> [0x32] | SuperTeam \<Rightarrow> [0x33]) @ 0x7C # t)"
  by (cases st) (simp_all add: buildConversationId_def js_def)

lemma split_fallback:
  assumes "0x7C \<notin> set t"
  shows "split 0x7C (buildConversationId None t st) =
     [[0x30], (case st of P2P \<Rightarrow> [0x31] | Team \<Rightarrow> [0x32] | SuperTeam \<Rightarrow> [0x33]), t]"
proof -
  have d: "0x7C \<notin> set (case st of P2P \<Rightarrow> [0x31 :: jschar] | Team \<Rightarrow> [0x32] | SuperTeam \<Rightarrow> [0x33])"
    by (cases st) simp_all
  have z: "(0x7C :: jschar) \<notin> set [0x30]" by simp
  show ?thesis
    unfolding fallback_shape
    by (simp only: split_append_sep [OF z] split_append_sep [OF d] split_no_sep [OF assms])
qed

text \<open>
  Claim C9. For a target id without \<open>|\<close>, parsing the identifier that the
  manual fallback builds gives back the target id, and the session type for
  \<open>p2p\<close> and \<open>team\<close>; for \<open>superTeam\<close> (type number 3) the parser answers
  \<open>p2p\<close>: it knows the type numbers 1 and 2 only and takes every other number
  for \<open>p2p\<close>. The round trip of the claim therefore fails for \<open>superTeam\<close>.
\<close>

theorem parse_build_fallback:
  assumes "0x7C \<notin> set t"
  shows "parseConversationId (buildConversationId None t st) =
     \<lparr>sessionType = (case st of SuperTeam \<Rightarrow> P2P | _ \<Rightarrow> st), targetId = t\<rparr>"
  unfolding parseConversationId_def split_fallback [OF assms]
  by (cases st) (simp_all add: parseInt_digit)

theorem parse_build_fallback_witness:
  "0x7C \<notin> set (js ''u'') \<and>
   buildConversationId None (js ''u'') SuperTeam = js ''0|3|u'' \<and>
   parseConversationId (buildConversationId None (js ''u'') SuperTeam) =
     \<lparr>sessionType = P2P, targetId = js ''u''\<rparr>"
proof -
  have a: "0x7C \<notin> set (js ''u'')" by (simp add: js_def)
  have b: "buildConversationId None (js ''u'') SuperTeam = js ''0|3|u''"
    by (simp add: buildConversationId_def js_def)
  show ?thesis using parse_build_fallback [OF a, of SuperTeam] a b by simp
qed

section \<open>Properties of the outbound sending\<close>

lemma sends_append [simp]: "sends (a @ b) = sends a @ sends b"
  by (simp add: sends_def)
lemma emitted_append [simp]: "emitted (a @ b) = emitted a @ emitted b"
  by (simp add: emitted_def)
lemma invoked_append [simp]: "invoked (a @ b) = invoked a @ invoked b"
  by (simp add: invoked_def)
lemma sends_simps [simp]: "sends [] = []" "sends (SdkSendMessage c p # acts) = (c, p) # sends acts"
  "sends (Delay n # acts) = sends acts"
  by (simp_all add: sends_def)
lemma emitted_simps [simp]: "emitted [] = []" "emitted (SdkSendMessage c p # acts) = emitted acts"
  "emitted (Delay n # acts) = emitted acts" "emitted (Emit (EvMessage m) # acts) = m # emitted acts"
  "emitted (InvokeCallback m # acts) = emitted acts"
  by (simp_all add: emitted_def)
lemma invoked_simps [simp]: "invoked [] = []" "invoked (SdkSendMessage c p # acts) = invoked acts"
  "invoked (Delay n # acts) = invoked acts" "invoked (Emit e # acts) = invoked acts"
  "invoked (InvokeCallback m # acts) = m # invoked acts"
  by (simp_all add: invoked_def)

lemma splitMessageIntoChunks_returns:
  "1 \<le> n \<Longrightarrow> \<exists>cs. splitMessageIntoChunks t n = Some cs"
  using chunkLoop_returns [of n t "[]"] by (auto simp: splitMessageIntoChunks_def)

lemma sendText_ok:
  "sendText env s to c = (Inr u, a) \<Longrightarrow>
   sends a = [(buildConversationId (conversationIdUtil s) to P2P, TextPayload c)]"
  by (auto simp: sendText_def Let_def split: if_splits option.splits)

lemma sendChunks_ok:
  "sendChunks env s to multi cs = (Inr u, a) \<Longrightarrow>
   sends a = map (\<lambda>c. (buildConversationId (conversationIdUtil s) to P2P, TextPayload c)) cs"
proof (induction cs arbitrary: a)
  case Nil
  then show ?case by simp
next
  case (Cons c cs)
  then show ?case
    by (auto split: prod.splits sum.splits dest: sendText_ok)
qed

lemma sendMedia_sends:
  "sends (snd (sendMedia env s to (path m))) =
     (if mediaGoesOut env s m
      then [(buildConversationId (conversationIdUtil s) to P2P, MediaPayload (path m))] else [])"
  by (auto simp: sendMedia_def sendNimMediaMessage_def mediaGoesOut_def Let_def split: option.splits)

lemma sendMarkers_sends:
  "sends (sendMarkers env s to ms) =
     map (\<lambda>m. (buildConversationId (conversationIdUtil s) to P2P, MediaPayload (path m)))
       (filter (mediaGoesOut env s) ms)"
proof (induction ms)
  case Nil
  then show ?case by simp
next
  case (Cons m ms)
  show ?case
  proof (cases "existsSync env (path m)")
    case True
    then show ?thesis using Cons.IH by (simp add: sendMedia_sends)
  next
    case False
    then show ?thesis using Cons.IH by (simp add: mediaGoesOut_def)
  qed
qed

lemma sendText_only_text:
  "\<forall>x \<in> set (sends (snd (sendText env s rcpt c))).
     x = (buildConversationId (conversationIdUtil s) rcpt P2P, TextPayload c)"
  by (simp add: sendText_def Let_def split: option.splits)

lemma sendChunks_only_text:
  "\<forall>x \<in> set (sends (snd (sendChunks env s rcpt multi cs))).
     \<exists>c. x = (buildConversationId (conversationIdUtil s) rcpt P2P, TextPayload c)"
proof (induction cs)
  case Nil
  then show ?case by simp
next
  case (Cons c cs)
  obtain r a where st: "sendText env s rcpt c = (r, a)"
    by (cases "sendText env s rcpt c")
  obtain r' a' where sc: "sendChunks env s rcpt multi cs = (r', a')"
    by (cases "sendChunks env s rcpt multi cs")
  have A: "\<forall>x \<in> set (sends a).
      \<exists>c. x = (buildConversationId (conversationIdUtil s) rcpt P2P, TextPayload c)"
    using sendText_only_text [of env s rcpt c] st by auto
  have B: "\<forall>x \<in> set (sends a').
      \<exists>c. x = (buildConversationId (conversationIdUtil s) rcpt P2P, TextPayload c)"
    using Cons.IH sc by simp
  show ?case
  proof (cases r)
    case (Inl e)
    with st A show ?thesis by simp
  next
    case (Inr u)
    with st sc A B show ?thesis by (cases multi) auto
  qed
qed

text \<open>When the text part goes out, or there is none, the markers follow.\<close>

lemma sendReplyWithMedia_text_sent:
  assumes "markers = parseMediaMarkers env body" and "markers \<noteq> []"
    and "stripped = stripMediaMarkers env body markers"
    and "cid = buildConversationId (conversationIdUtil s) rcpt P2P"
    and "trim stripped = [] \<or> (\<exists>a. sendLongText env s rcpt stripped = Some (Inr (), a))"
  shows "\<exists>acts chunks.
     sendReplyWithMedia env s rcpt body = Some (Inr (), acts) \<and>
     splitMessageIntoChunks stripped MAX_MESSAGE_LENGTH = Some chunks \<and>
     sends acts =
       (if trim stripped \<noteq> [] then map (\<lambda>c. (cid, TextPayload c)) chunks else []) @
       map (\<lambda>m. (cid, MediaPayload (path m))) (filter (mediaGoesOut env s) markers)"
proof -
  obtain chunks where ch: "splitMessageIntoChunks stripped MAX_MESSAGE_LENGTH = Some chunks"
    using splitMessageIntoChunks_returns [of MAX_MESSAGE_LENGTH stripped]
    by (auto simp: MAX_MESSAGE_LENGTH_def)
  show ?thesis
  proof (cases "trim stripped = []")
    case True
    then have "sendReplyWithMedia env s rcpt body =
        Some (Inr (), sendMarkers env s rcpt markers)"
      using assms(1-3) by (simp add: sendReplyWithMedia_def Let_def)
    then show ?thesis using True ch assms(4) by (simp add: sendMarkers_sends)
  next
    case False
    with assms(5) obtain a where a: "sendLongText env s rcpt stripped = Some (Inr (), a)"
      by blast
    with ch have "sendChunks env s rcpt (1 < length chunks) chunks = (Inr (), a)"
      by (simp add: sendLongText_def)
    then have sa: "sends a = map (\<lambda>c. (cid, TextPayload c)) chunks"
      using assms(4) by (simp add: sendChunks_ok)
    have "sendReplyWithMedia env s rcpt body =
        Some (Inr (), a @ [Delay 100] @ sendMarkers env s rcpt markers)"
      using assms(1-3) False a by (simp add: sendReplyWithMedia_def Let_def)
    then show ?thesis using False ch sa assms(4) by (simp add: sendMarkers_sends)
  qed
qed

text \<open>When a chunk of the text part fails, the reply ends there with that error.\<close>

lemma sendReplyWithMedia_text_failed:
  assumes "markers = parseMediaMarkers env body" and "markers \<noteq> []"
    and "stripped = stripMediaMarkers env body markers"
    and "cid = buildConversationId (conversationIdUtil s) rcpt P2P"
    and "trim stripped \<noteq> []"
    and "sendLongText env s rcpt stripped = Some (Inl e, a)"
  shows "sendReplyWithMedia env s rcpt body = Some (Inl e, a) \<and>
     (\<forall>x \<in> set (sends a). \<exists>c. x = (cid, TextPayload c))"
proof -
  have r: "sendReplyWithMedia env s rcpt body = Some (Inl e, a)"
    using assms(1-3,5,6) by (simp add: sendReplyWithMedia_def Let_def)
  obtain chunks where "sendChunks env s rcpt (1 < length chunks) chunks = (Inl e, a)"
    using assms(6) by (auto simp: sendLongText_def split: option.splits)
  then have "\<forall>x \<in> set (sends a). \<exists>c. x = (cid, TextPayload c)"
    using sendChunks_only_text [of env s rcpt "1 < length chunks" chunks] assms(4) by simp
  with r show ?thesis by simp
qed

lemma sendLongText_returns: "\<exists>r a. sendLongText env s rcpt body = Some (r, a)"
proof -
  obtain chunks where "splitMessageIntoChunks body MAX_MESSAGE_LENGTH = Some chunks"
    using splitMessageIntoChunks_returns [of MAX_MESSAGE_LENGTH body]
    by (auto simp: MAX_MESSAGE_LENGTH_def)
  then show ?thesis
    by (cases "sendChunks env s rcpt (1 < length chunks) chunks") (simp add: sendLongText_def)
qed

text \<open>
  Claim C7. What \<open>sendReplyWithMedia\<close> does for a reply in which markers are
  found. When the marker-stripped text is blank after trimming, or all its
  chunks are sent without an error, \<open>sendReplyWithMedia\<close> returns without
  raising and its native sends are, in this order, the chunks of the stripped
  text (none when it is blank), then one media message per marker, in marker
  order, for every marker whose file exists (and for which the services are
  there and the creator returns a message): a marker whose file is missing
  contributes nothing, and whatever \<open>sendMessage\<close> answers for a media
  message, the later markers are still sent. When a chunk of the stripped text
  fails, nothing catches the error: \<open>sendReplyWithMedia\<close> raises it, and no
  marker's file is sent; here the claim fails. Sending the text part always
  returns, in one of the two ways.
\<close>

theorem sendReplyWithMedia_order:
  assumes "markers = parseMediaMarkers env body" and "markers \<noteq> []"
    and "stripped = stripMediaMarkers env body markers"
    and "cid = buildConversationId (conversationIdUtil s) rcpt P2P"
  shows "(trim stripped = [] \<or> (\<exists>a. sendLongText env s rcpt stripped = Some (Inr (), a)) \<longrightarrow>
      (\<exists>acts chunks.
         sendReplyWithMedia env s rcpt body = Some (Inr (), acts) \<and>
         splitMessageIntoChunks stripped MAX_MESSAGE_LENGTH = Some chunks \<and>
         sends acts =
           (if trim stripped \<noteq> [] then map (\<lambda>c. (cid, TextPayload c)) chunks else []) @
           map (\<lambda>m. (cid, MediaPayload (path m))) (filter (mediaGoesOut env s) markers))) \<and>
    (\<forall>e a. trim stripped \<noteq> [] \<and> sendLongText env s rcpt stripped = Some (Inl e, a) \<longrightarrow>
       sendReplyWithMedia env s rcpt body = Some (Inl e, a) \<and>
       (\<forall>x \<in> set (sends a). \<exists>c. x = (cid, TextPayload c))) \<and>
    (\<exists>r a. sendLongText env s rcpt stripped = Some (r, a))"
  using sendReplyWithMedia_text_sent [OF assms] sendReplyWithMedia_text_failed [OF assms]
    sendLongText_returns [of env s rcpt stripped]
  by blast

lemma startedGateway_services:
  "messageService startedGateway = Some V2NIMMessageService"
  "messageCreator startedGateway = Some V2NIMMessageCreator"
  "conversationIdUtil startedGateway = None"
  by (simp_all add: example_defs start_def startInternal_def startBody_def Let_def js_def)

theorem sendReplyWithMedia_order_witness:
  "(\<exists>acts. sendReplyWithMedia exampleEnv startedGateway (js ''a'') (js ''reply'') =
       Some (Inr (), acts) \<and>
     sends acts =
       [(js ''0|1|a'', TextPayload (js ''Here: and'')),
        (js ''0|1|a'', MediaPayload (js ''/tmp/a.png'')),
        (js ''0|1|a'', MediaPayload (js ''/tmp/b.pdf''))]) \<and>
   sendReplyWithMedia rejectTextEnv startedGateway (js ''a'') (js ''reply'') =
     Some (Inl (Error (js ''timeout'')),
           [SdkSendMessage (js ''0|1|a'') (TextPayload (js ''Here: and''))])"
proof -
  have n: "threeMarkers \<noteq> []" by (simp add: threeMarkers_def)
  have cid: "js ''0|1|a'' =
      buildConversationId (conversationIdUtil startedGateway) (js ''a'') P2P"
    by (simp add: startedGateway_services buildConversationId_def js_def)
  have ch: "splitMessageIntoChunks (js ''Here: and'') MAX_MESSAGE_LENGTH =
      Some [js ''Here: and'']"
    by (simp add: splitMessageIntoChunks_def MAX_MESSAGE_LENGTH_def js_def)
  have tr: "trim (js ''Here: and'') \<noteq> []"
    by (simp add: trim_def trimEnd_def trimStart_def isWhiteSpace_def js_def)
  have m: "threeMarkers = parseMediaMarkers exampleEnv (js ''reply'')"
    by (simp add: exampleEnv_def js_def)
  have st: "js ''Here: and'' = stripMediaMarkers exampleEnv (js ''reply'') threeMarkers"
    by (simp add: exampleEnv_def)
  have t: "\<exists>a. sendLongText exampleEnv startedGateway (js ''a'') (js ''Here: and'') =
      Some (Inr (), a)"
    by (simp add: sendLongText_def ch sendText_def startedGateway_services exampleEnv_def
        Let_def)
  have f: "filter (mediaGoesOut exampleEnv startedGateway) threeMarkers =
      [\<lparr>path = js ''/tmp/a.png''\<rparr>, \<lparr>path = js ''/tmp/b.pdf''\<rparr>]"
    by (simp add: threeMarkers_def mediaGoesOut_def exampleEnv_def startedGateway_services
        js_def)
  have 1: "\<exists>acts. sendReplyWithMedia exampleEnv startedGateway (js ''a'') (js ''reply'') =
       Some (Inr (), acts) \<and>
     sends acts =
       [(js ''0|1|a'', TextPayload (js ''Here: and'')),
        (js ''0|1|a'', MediaPayload (js ''/tmp/a.png'')),
        (js ''0|1|a'', MediaPayload (js ''/tmp/b.pdf''))]"
    using sendReplyWithMedia_order [OF m n st cid, THEN conjunct1] t ch f tr by auto
  have m': "threeMarkers = parseMediaMarkers rejectTextEnv (js ''reply'')"
    by (simp add: rejectTextEnv_def exampleEnv_def js_def)
  have st': "js ''Here: and'' = stripMediaMarkers rejectTextEnv (js ''reply'') threeMarkers"
    by (simp add: rejectTextEnv_def exampleEnv_def)
  have t': "sendLongText rejectTextEnv startedGateway (js ''a'') (js ''Here: and'') =
      Some (Inl (Error (js ''timeout'')),
            [SdkSendMessage (js ''0|1|a'') (TextPayload (js ''Here: and''))])"
    by (simp add: sendLongText_def ch sendText_def startedGateway_services rejectTextEnv_def
        exampleEnv_def Let_def buildConversationId_def)
       (simp add: js_def)
  have 2: "sendReplyWithMedia rejectTextEnv startedGateway (js ''a'') (js ''reply'') =
     Some (Inl (Error (js ''timeout'')),
           [SdkSendMessage (js ''0|1|a'') (TextPayload (js ''Here: and''))])"
    using sendReplyWithMedia_order [OF m' n st' cid, THEN conjunct2, THEN conjunct1] tr t'
    by blast
  show ?thesis using 1 2 by blast
qed

section \<open>Properties of the inbound handler\<close>



















lemma clientInvariant_deliver:
  "deliver env now m s = Some s' \<Longrightarrow> clientInvariant s \<Longrightarrow> clientInvariant s'"
  by (auto simp: deliver_def replyFn_def clientInvariant_def running_def Let_def
      split: option.splits prod.splits sum.splits)

lemma clientInvariant_handleIncomingMessage:
  "handleIncomingMessage env now msg (c, s) = Some (c', s') \<Longrightarrow> clientInvariant s \<Longrightarrow>
   clientInvariant s'"
  by (auto simp: handleIncomingMessage_def Let_def
      split: if_splits option.splits prod.splits bool.splits dest: clientInvariant_deliver)





lemma sendText_services:
  assumes "messageService s' = messageService s" "messageCreator s' = messageCreator s"
    "conversationIdUtil s' = conversationIdUtil s"
  shows "sendText env s' rcpt c = sendText env s rcpt c"
  by (simp add: sendText_def assms)

lemma sendChunks_services:
  assumes "messageService s' = messageService s" "messageCreator s' = messageCreator s"
    "conversationIdUtil s' = conversationIdUtil s"
  shows "sendChunks env s' rcpt multi cs = sendChunks env s rcpt multi cs"
  by (induction cs) (simp_all add: sendText_services [OF assms] split: prod.splits sum.splits)

lemma sendMedia_services:
  assumes "messageService s' = messageService s" "messageCreator s' = messageCreator s"
    "conversationIdUtil s' = conversationIdUtil s"
  shows "sendMedia env s' rcpt p = sendMedia env s rcpt p"
  by (simp add: sendMedia_def assms)

lemma sendMarkers_services:
  assumes "messageService s' = messageService s" "messageCreator s' = messageCreator s"
    "conversationIdUtil s' = conversationIdUtil s"
  shows "sendMarkers env s' rcpt ms = sendMarkers env s rcpt ms"
  by (induction ms) (simp_all add: sendMedia_services [OF assms])

lemma sendReplyWithMedia_services:
  assumes "messageService s' = messageService s" "messageCreator s' = messageCreator s"
    "conversationIdUtil s' = conversationIdUtil s"
  shows "sendReplyWithMedia env s' rcpt body = sendReplyWithMedia env s rcpt body"
  by (simp add: sendReplyWithMedia_def sendLongText_def Let_def
      sendChunks_services [OF assms] sendMarkers_services [OF assms]
      split: option.splits prod.splits sum.splits)

lemma sendReplyWithMedia_frame [simp]:
  "sendReplyWithMedia env (s\<lparr>config := c\<rparr>) = sendReplyWithMedia env s"
  "sendReplyWithMedia env (s\<lparr>status := st\<rparr>) = sendReplyWithMedia env s"
  "sendReplyWithMedia env (s\<lparr>trace := tr\<rparr>) = sendReplyWithMedia env s"
  "sendReplyWithMedia env (s\<lparr>lastSenderId := l\<rparr>) = sendReplyWithMedia env s"
  by (rule ext, rule ext, rule sendReplyWithMedia_services; simp)+







end
